theory Spec2Isabelle
  imports Main
begin

section \<open>Data model of the asynchronous audit-logs client\<close>

text \<open>
  Python values that travel in query and body parameter dictionaries
  (\<^verbatim>\<open>Dict[str, any]\<close>). \<open>PyNone\<close> is Python's \<^verbatim>\<open>None\<close>.
\<close>

datatype py_value = PyNone | PyBool bool | PyInt int | PyStr string | PyList "py_value list"

text \<open>
  A dictionary is a finite map from its keys. The order of the entries plays no part in
  any property below, so the insertion order of Python dictionaries is not kept.
\<close>

type_synonym py_dict = "string \<rightharpoonup> py_value"
type_synonym header_dict = "string \<rightharpoonup> string"

datatype basic_auth = BasicAuth string string

text \<open>An \<^verbatim>\<open>ssl.SSLContext\<close> is opaque to the client; it is only handed on.\<close>

datatype ssl_context = SSLContext nat

record logger =
  level :: int

text \<open>
  The fields of \<^verbatim>\<open>AsyncAuditLogsClient\<close>. The session is a handle into the store of
  sessions of the \<open>world\<close> below, since a session is a mutable object shared with the
  caller.
\<close>

record client =
  token :: string
  timeout :: int
  ssl :: "ssl_context option"
  proxy :: "string option"
  base_url :: string
  session :: "nat option"
  trust_env_in_session :: bool
  auth :: "basic_auth option"
  default_headers :: header_dict
  logger :: logger

text \<open>
  Exceptions of the libraries underneath: \<^verbatim>\<open>aiohttp.ContentTypeError\<close>,
  \<^verbatim>\<open>json.decoder.JSONDecodeError\<close> (with its \<^verbatim>\<open>str(e)\<close>), and any other exception
  (connection failure, timeout, payload or decoding errors).
\<close>

datatype exn = ContentTypeError | JSONDecodeError string | OtherError string

text \<open>What \<^verbatim>\<open>await res.text()\<close> does on a response: it returns the text or raises.\<close>

datatype text_outcome = TextOk string | TextRaises exn

text \<open>The response object \<^verbatim>\<open>res\<close> of aiohttp: \<^verbatim>\<open>res.status\<close>, \<^verbatim>\<open>res.headers\<close>, \<^verbatim>\<open>res.text()\<close>.\<close>

record http_response =
  status :: int
  res_headers :: header_dict
  text_result :: text_outcome

text \<open>
  The local variable \<^verbatim>\<open>response_body\<close> starts as the empty dictionary \<^verbatim>\<open>{}\<close> and is
  overwritten by the text once it has been read.
\<close>

datatype response_body = EmptyDict | BodyText string

text \<open>
  Modelled from the spec: the class \<^verbatim>\<open>AuditLogsResponse\<close> of the module \<^verbatim>\<open>.response\<close> is
  not among the sources. The envelope wraps the request URL, the status code, the raw
  body and the response headers, which are the four keyword arguments the client passes
  to its constructor.
\<close>

record audit_logs_response =
  url :: string
  status_code :: int
  raw_body :: response_body
  headers :: header_dict

text \<open>
  What a call raises: \<^verbatim>\<open>SlackApiError(message, res)\<close>, or an exception of the libraries
  that passes through unchanged.
\<close>

datatype error = SlackApiError string http_response | Raised exn

text \<open>The arguments of one \<^verbatim>\<open>session.request(http_verb, url, **request_kwargs)\<close>.\<close>

record request =
  req_verb :: string
  req_url :: string
  req_headers :: header_dict
  req_params :: "py_dict option"
  req_data :: "string option"
  req_ssl :: "ssl_context option"
  req_proxy :: "string option"

text \<open>
  An \<^verbatim>\<open>aiohttp.ClientSession\<close>: its \<^verbatim>\<open>closed\<close> flag and the three settings the client
  passes when it creates one.
\<close>

record client_session =
  closed :: bool
  total_timeout :: int
  session_auth :: "basic_auth option"
  trust_env :: bool

text \<open>
  The debug messages the client hands to its logger, with the values interpolated into
  each f-string kept as fields: the request message (url, params, body, headers for
  logging), the message of the unreadable body (url), and the response message.
\<close>

datatype log_msg =
    SendingRequest string "py_dict option" "string option" header_dict
  | NoResponseData string
  | ReceivedResponse audit_logs_response

text \<open>
  The state outside the client: the store of sessions (a handle is an index), the
  requests issued so far with the session each one went through, and the calls made to
  the logger with their level.
\<close>

record world =
  sessions :: "client_session list"
  requests :: "(nat \<times> request) list"
  log_records :: "(int \<times> log_msg) list"

text \<open>
  What the client calls and does not define. \<open>json_dumps\<close> is \<^verbatim>\<open>json.dumps\<close>;
  \<open>session_request\<close> is the outcome of \<^verbatim>\<open>session.request\<close> on a session handle, which
  raises or answers with a response.

  Modelled from the spec: \<^verbatim>\<open>_build_request_headers\<close> of the module \<^verbatim>\<open>.internal_utils\<close> is
  not among the sources. It takes the token, the default headers and the additional
  headers of the call and returns the merged header map; it is left as a parameter.
\<close>

record env =
  json_dumps :: "py_dict \<Rightarrow> string"
  build_request_headers :: "string \<Rightarrow> header_dict \<Rightarrow> header_dict option \<Rightarrow> header_dict"
  session_request :: "nat \<Rightarrow> request \<Rightarrow> exn + http_response"

section \<open>Logging\<close>

definition DEBUG :: int where
  "DEBUG = 10"

definition logger_debug :: "log_msg \<Rightarrow> world \<Rightarrow> world" where
  "logger_debug m w = w\<lparr>log_records := log_records w @ [(DEBUG, m)]\<rparr>"

text \<open>
  Modelled from the spec: \<^verbatim>\<open>_debug_log_response\<close> of the module \<^verbatim>\<open>.internal_utils\<close> is not
  among the sources. It logs the response envelope at debug level.
\<close>

definition debug_log_response :: "audit_logs_response \<Rightarrow> world \<Rightarrow> world" where
  "debug_log_response resp w = logger_debug (ReceivedResponse resp) w"

text \<open>
  \<^verbatim>\<open>str.lower\<close> on the letters A to Z. A character outside ASCII never lowers to one of
  the ASCII letters of \<^verbatim>\<open>authorization\<close>, so the comparison below is not affected by the
  characters left as they are.
\<close>

definition lower_char :: "char \<Rightarrow> char" where
  "lower_char c =
     (let n = (of_char c :: nat) in if 65 \<le> n \<and> n \<le> 90 then char_of (n + 32) else c)"

definition lower :: "string \<Rightarrow> string" where
  "lower s = map lower_char s"

definition headers_for_logging :: "header_dict \<Rightarrow> header_dict" where
  "headers_for_logging hs =
     (\<lambda>k. case hs k of
            None \<Rightarrow> None
          | Some v \<Rightarrow> Some (if lower k = ''authorization'' then ''(redacted)'' else v))"

section \<open>The endpoint methods\<close>

text \<open>
  The dictionary comprehension \<^verbatim>\<open>{k: v for k, v in d.items() if v is not None}\<close>.
\<close>

definition drop_none :: "py_dict \<Rightarrow> py_dict" where
  "drop_none d =
     (\<lambda>k. case d k of
            None \<Rightarrow> None
          | Some v \<Rightarrow> (case v of PyNone \<Rightarrow> None | _ \<Rightarrow> Some v))"

definition of_int_opt :: "int option \<Rightarrow> py_value" where
  "of_int_opt x = (case x of None \<Rightarrow> PyNone | Some i \<Rightarrow> PyInt i)"

definition of_str_opt :: "string option \<Rightarrow> py_value" where
  "of_str_opt x = (case x of None \<Rightarrow> PyNone | Some s \<Rightarrow> PyStr s)"

text \<open>The local variable \<^verbatim>\<open>query_params\<close> of \<^verbatim>\<open>logs\<close>, as it is passed to \<^verbatim>\<open>api_call\<close>.\<close>

definition logs_query_params ::
  "int option \<Rightarrow> int option \<Rightarrow> int option \<Rightarrow> string option \<Rightarrow> string option \<Rightarrow>
   string option \<Rightarrow> py_dict option \<Rightarrow> py_dict" where
  "logs_query_params latest oldest limit action actor entity additional_query_params =
     (let query_params =
            [''latest'' \<mapsto> of_int_opt latest,
             ''oldest'' \<mapsto> of_int_opt oldest,
             ''limit'' \<mapsto> of_int_opt limit,
             ''action'' \<mapsto> of_str_opt action,
             ''actor'' \<mapsto> of_str_opt actor,
             ''entity'' \<mapsto> of_str_opt entity];
          query_params' =
            (case additional_query_params of
               None \<Rightarrow> query_params
             | Some a \<Rightarrow> query_params ++ a)
      in drop_none query_params')"

section \<open>The transport invoker\<close>

definition is_open :: "world \<Rightarrow> nat \<Rightarrow> bool" where
  "is_open w s = (s < length (sessions w) \<and> \<not> closed (sessions w ! s))"

text \<open>\<^verbatim>\<open>self.session and not self.session.closed\<close>\<close>

definition use_running_session :: "client \<Rightarrow> world \<Rightarrow> bool" where
  "use_running_session cl w = (case session cl of None \<Rightarrow> False | Some s \<Rightarrow> is_open w s)"

text \<open>
  \<^verbatim>\<open>aiohttp.ClientSession(timeout=ClientTimeout(total=self.timeout), auth=self.auth,
  trust_env=self.trust_env_in_session)\<close>: a new, open session at a fresh handle.
\<close>

definition new_session :: "client \<Rightarrow> world \<Rightarrow> nat \<times> world" where
  "new_session cl w =
     (length (sessions w),
      w\<lparr>sessions := sessions w @
          [\<lparr>closed = False, total_timeout = timeout cl, session_auth = auth cl,
            trust_env = trust_env_in_session cl\<rparr>]\<rparr>)"

definition close_session :: "nat \<Rightarrow> world \<Rightarrow> world" where
  "close_session s w =
     (if s < length (sessions w)
      then w\<lparr>sessions := (sessions w)[s := (sessions w ! s)\<lparr>closed := True\<rparr>]\<rparr>
      else w)"

text \<open>
  The body of \<^verbatim>\<open>async with session.request(...) as res\<close>: the text of the response is
  read, the two handlers of the inner \<^verbatim>\<open>try\<close> follow in the order of the source, any
  other exception passes through, and otherwise the envelope is built and logged.
\<close>

definition read_response ::
  "string \<Rightarrow> http_response \<Rightarrow> world \<Rightarrow> (error + audit_logs_response) \<times> world" where
  "read_response u res w =
     (case (case text_result res of
              TextOk s \<Rightarrow> Inr (BodyText s, w)
            | TextRaises ContentTypeError \<Rightarrow> Inr (EmptyDict, logger_debug (NoResponseData u) w)
            | TextRaises (JSONDecodeError m) \<Rightarrow>
                Inl (SlackApiError (''Failed to parse the response body: '' @ m) res, w)
            | TextRaises (OtherError m) \<Rightarrow> Inl (Raised (OtherError m), w)) of
        Inl (e, w') \<Rightarrow> (Inl e, w')
      | Inr (response_body, w') \<Rightarrow>
          (let resp = \<lparr>url = u, status_code = status res, raw_body = response_body,
                       headers = res_headers res\<rparr>
           in (Inr resp, debug_log_response resp w')))"

definition perform_http_request ::
  "env \<Rightarrow> client \<Rightarrow> string \<Rightarrow> string \<Rightarrow> py_dict option \<Rightarrow> py_dict option \<Rightarrow> header_dict \<Rightarrow>
   world \<Rightarrow> (error + audit_logs_response) \<times> world" where
  "perform_http_request ev cl http_verb u query_params body_params hs w =
     (let body = (case body_params of None \<Rightarrow> None | Some b \<Rightarrow> Some (json_dumps ev b));
          hs' = hs(''Content-Type'' \<mapsto> ''application/json;charset=utf-8'');
          w1 = (if level (logger cl) \<le> DEBUG
                then logger_debug (SendingRequest u query_params body (headers_for_logging hs')) w
                else w);
          running = use_running_session cl w1;
          (s, w2) = (case (running, session cl) of
                       (True, Some s') \<Rightarrow> (s', w1)
                     | _ \<Rightarrow> new_session cl w1);
          rq = \<lparr>req_verb = http_verb, req_url = u, req_headers = hs',
                req_params = query_params, req_data = body, req_ssl = ssl cl,
                req_proxy = proxy cl\<rparr>;
          w3 = w2\<lparr>requests := requests w2 @ [(s, rq)]\<rparr>;
          (r, w4) = (case session_request ev s rq of
                       Inl e \<Rightarrow> (Inl (Raised e), w3)
                     | Inr res \<Rightarrow> read_response u res w3);
          w5 = (if \<not> running then close_session s w4 else w4)
      in (r, w5))"

definition api_call ::
  "env \<Rightarrow> client \<Rightarrow> string \<Rightarrow> string \<Rightarrow> py_dict option \<Rightarrow> py_dict option \<Rightarrow>
   header_dict option \<Rightarrow> world \<Rightarrow> (error + audit_logs_response) \<times> world" where
  "api_call ev cl http_verb path query_params body_params hs w =
     (let u = base_url cl @ path
      in perform_http_request ev cl http_verb u query_params body_params
           (build_request_headers ev (token cl) (default_headers cl) hs) w)"

definition schemas ::
  "env \<Rightarrow> client \<Rightarrow> py_dict option \<Rightarrow> header_dict option \<Rightarrow> world \<Rightarrow>
   (error + audit_logs_response) \<times> world" where
  "schemas ev cl query_params hs w = api_call ev cl ''GET'' ''schemas'' query_params None hs w"

definition actions ::
  "env \<Rightarrow> client \<Rightarrow> py_dict option \<Rightarrow> header_dict option \<Rightarrow> world \<Rightarrow>
   (error + audit_logs_response) \<times> world" where
  "actions ev cl query_params hs w = api_call ev cl ''GET'' ''actions'' query_params None hs w"

definition logs ::
  "env \<Rightarrow> client \<Rightarrow> int option \<Rightarrow> int option \<Rightarrow> int option \<Rightarrow> string option \<Rightarrow>
   string option \<Rightarrow> string option \<Rightarrow> py_dict option \<Rightarrow> header_dict option \<Rightarrow> world \<Rightarrow>
   (error + audit_logs_response) \<times> world" where
  "logs ev cl latest oldest limit action actor entity additional_query_params hs w =
     api_call ev cl ''GET'' ''logs''
       (Some (logs_query_params latest oldest limit action actor entity additional_query_params))
       None hs w"

section \<open>Parts of the transport invoker, named for the statements below\<close>

text \<open>
  The keyword arguments \<^verbatim>\<open>request_kwargs\<close> together with verb and URL, as the invoker
  builds them from its own arguments.
\<close>

definition the_request ::
  "env \<Rightarrow> client \<Rightarrow> string \<Rightarrow> string \<Rightarrow> py_dict option \<Rightarrow> py_dict option \<Rightarrow> header_dict \<Rightarrow>
   request" where
  "the_request ev cl http_verb u query_params body_params hs =
     \<lparr>req_verb = http_verb, req_url = u,
      req_headers = hs(''Content-Type'' \<mapsto> ''application/json;charset=utf-8''),
      req_params = query_params,
      req_data = (case body_params of None \<Rightarrow> None | Some b \<Rightarrow> Some (json_dumps ev b)),
      req_ssl = ssl cl, req_proxy = proxy cl\<rparr>"

text \<open>The first step of the invoker: the request message, when the logger's level allows it.\<close>

definition log_request ::
  "env \<Rightarrow> client \<Rightarrow> string \<Rightarrow> py_dict option \<Rightarrow> py_dict option \<Rightarrow> header_dict \<Rightarrow> world \<Rightarrow>
   world" where
  "log_request ev cl u query_params body_params hs w =
     (if level (logger cl) \<le> DEBUG
      then logger_debug
             (SendingRequest u query_params
                (case body_params of None \<Rightarrow> None | Some b \<Rightarrow> Some (json_dumps ev b))
                (headers_for_logging
                   (hs(''Content-Type'' \<mapsto> ''application/json;charset=utf-8'')))) w
      else w)"

text \<open>The body of the outer \<^verbatim>\<open>try\<close>: the request is made and its response is read.\<close>

definition answer ::
  "env \<Rightarrow> nat \<Rightarrow> request \<Rightarrow> string \<Rightarrow> world \<Rightarrow> (error + audit_logs_response) \<times> world" where
  "answer ev s rq u w =
     (case session_request ev s rq of
        Inl e \<Rightarrow> (Inl (Raised e), w)
      | Inr res \<Rightarrow> read_response u res w)"

text \<open>The handle of the session the request goes through.\<close>

definition session_used :: "client \<Rightarrow> world \<Rightarrow> nat" where
  "session_used cl w =
     (case session cl of
        None \<Rightarrow> length (sessions w)
      | Some s \<Rightarrow> if is_open w s then s else length (sessions w))"

section \<open>The specification of the query of \<^verbatim>\<open>logs\<close>\<close>

text \<open>
  The named filters whose value is not null, as the specification words it: each of the
  six names maps to the value of its argument when that argument is given.
\<close>

definition non_null_named_filters ::
  "int option \<Rightarrow> int option \<Rightarrow> int option \<Rightarrow> string option \<Rightarrow> string option \<Rightarrow>
   string option \<Rightarrow> py_dict" where
  "non_null_named_filters latest oldest limit action actor entity =
     (\<lambda>k. if k = ''latest'' then map_option PyInt latest
          else if k = ''oldest'' then map_option PyInt oldest
          else if k = ''limit'' then map_option PyInt limit
          else if k = ''action'' then map_option PyStr action
          else if k = ''actor'' then map_option PyStr actor
          else if k = ''entity'' then map_option PyStr entity
          else None)"

section \<open>Concrete clients, worlds and transports\<close>

text \<open>
  Modelled from the spec: \<^verbatim>\<open>_build_request_headers\<close> is not among the sources. Per-call
  headers take precedence over the defaults and an \<^verbatim>\<open>Authorization: Bearer <token>\<close> header
  is always present. It is used for the concrete transports only.
\<close>

definition merged_headers :: "string \<Rightarrow> header_dict \<Rightarrow> header_dict option \<Rightarrow> header_dict" where
  "merged_headers tok dflt additional =
     (dflt ++ (case additional of None \<Rightarrow> Map.empty | Some a \<Rightarrow> a))
       (''Authorization'' \<mapsto> ''Bearer '' @ tok)"

text \<open>A transport that gives the same outcome to every request.\<close>

definition sample_env :: "(exn + http_response) \<Rightarrow> env" where
  "sample_env outcome =
     \<lparr>json_dumps = (\<lambda>_. ''{}''), build_request_headers = merged_headers,
      session_request = (\<lambda>_ _. outcome)\<rparr>"

text \<open>A client with the default base URL, a logger at debug level and the given session.\<close>

definition sample_client :: "nat option \<Rightarrow> client" where
  "sample_client s =
     \<lparr>token = ''xoxp-1'', timeout = 30, ssl = None, proxy = None,
      base_url = ''https://api.slack.com/audit/v1/'', session = s,
      trust_env_in_session = False, auth = None,
      default_headers = [''User-Agent'' \<mapsto> ''ua''], logger = \<lparr>level = 10\<rparr>\<rparr>"

text \<open>A world with one open session, at handle 0, and nothing sent or logged yet.\<close>

definition sample_world :: world where
  "sample_world =
     \<lparr>sessions = [\<lparr>closed = False, total_timeout = 5, session_auth = None, trust_env = False\<rparr>],
      requests = [], log_records = []\<rparr>"

definition text_response :: "text_outcome \<Rightarrow> http_response" where
  "text_response t =
     \<lparr>status = 200, res_headers = [''Content-Type'' \<mapsto> ''text/plain''], text_result = t\<rparr>"

section \<open>What each step leaves unchanged\<close>

lemma requests_logger_debug [simp]: "requests (logger_debug m w) = requests w"
  by (simp add: logger_debug_def)

lemma sessions_logger_debug [simp]: "sessions (logger_debug m w) = sessions w"
  by (simp add: logger_debug_def)

lemma log_records_logger_debug [simp]: "log_records (logger_debug m w) = log_records w @ [(DEBUG, m)]"
  by (simp add: logger_debug_def)

lemma requests_close_session [simp]: "requests (close_session s w) = requests w"
  by (simp add: close_session_def)

lemma log_records_close_session [simp]: "log_records (close_session s w) = log_records w"
  by (simp add: close_session_def)

lemma requests_read_response [simp]: "requests (snd (read_response u res w)) = requests w"
  by (simp add: read_response_def debug_log_response_def Let_def split: text_outcome.splits exn.splits)

lemma sessions_read_response [simp]: "sessions (snd (read_response u res w)) = sessions w"
  by (simp add: read_response_def debug_log_response_def Let_def split: text_outcome.splits exn.splits)

lemma is_open_logger_debug [simp]: "is_open (logger_debug m w) s = is_open w s"
  by (simp add: is_open_def)

lemma use_running_session_logger_debug [simp]:
  "use_running_session cl (logger_debug m w) = use_running_session cl w"
  by (simp add: use_running_session_def is_open_def split: option.splits)

lemma requests_log_request [simp]: "requests (log_request ev cl u qp bp hs w) = requests w"
  by (simp add: log_request_def)

lemma sessions_log_request [simp]: "sessions (log_request ev cl u qp bp hs w) = sessions w"
  by (simp add: log_request_def)

lemma is_open_log_request [simp]: "is_open (log_request ev cl u qp bp hs w) s = is_open w s"
  by (simp add: log_request_def)

lemma use_running_session_log_request [simp]:
  "use_running_session cl (log_request ev cl' u qp bp hs w) = use_running_session cl w"
  by (simp add: log_request_def)

lemma requests_answer [simp]: "requests (snd (answer ev s rq u w)) = requests w"
  by (simp add: answer_def split: sum.splits)

lemma sessions_answer [simp]: "sessions (snd (answer ev s rq u w)) = sessions w"
  by (simp add: answer_def split: sum.splits)

lemma perform_running:
  assumes "session cl = Some s" "is_open w s"
  shows "perform_http_request ev cl v u qp bp hs w =
         answer ev s (the_request ev cl v u qp bp hs) u
           ((log_request ev cl u qp bp hs w)
              \<lparr>requests := requests w @ [(s, the_request ev cl v u qp bp hs)]\<rparr>)"
proof -
  have r: "use_running_session cl (log_request ev cl u qp bp hs w)"
    using assms by (simp add: use_running_session_def)
  show ?thesis
    unfolding perform_http_request_def Let_def
      log_request_def [symmetric] the_request_def [symmetric]
    using r assms(1) by (simp add: answer_def split_beta cong: sum.case_cong)
qed

lemma perform_fresh:
  assumes "\<not> use_running_session cl w"
  shows "perform_http_request ev cl v u qp bp hs w =
         (let s = length (sessions w);
              a = answer ev s (the_request ev cl v u qp bp hs) u
                    ((snd (new_session cl (log_request ev cl u qp bp hs w)))
                       \<lparr>requests := requests w @ [(s, the_request ev cl v u qp bp hs)]\<rparr>)
          in (fst a, close_session s (snd a)))"
proof -
  have r: "\<not> use_running_session cl (log_request ev cl u qp bp hs w)"
    using assms by simp
  have f: "fst (new_session cl (log_request ev cl u qp bp hs w)) = length (sessions w)"
    by (simp add: new_session_def)
  have q: "requests (snd (new_session cl (log_request ev cl u qp bp hs w))) = requests w"
    by (simp add: new_session_def)
  show ?thesis
    unfolding perform_http_request_def Let_def
      log_request_def [symmetric] the_request_def [symmetric]
    using r by (simp add: answer_def split_beta f q cong: sum.case_cong split: option.splits)
qed

lemma perform_requests:
  "requests (snd (perform_http_request ev cl v u qp bp hs w)) =
   requests w @ [(session_used cl w, the_request ev cl v u qp bp hs)]"
proof (cases "use_running_session cl w")
  case True
  then obtain s where s: "session cl = Some s" "is_open w s"
    by (auto simp add: use_running_session_def split: option.splits)
  then show ?thesis
    by (simp add: perform_running session_used_def)
next
  case False
  then have "session_used cl w = length (sessions w)"
    by (simp add: use_running_session_def session_used_def split: option.splits)
  with False show ?thesis
    by (simp add: perform_fresh Let_def)
qed

lemma perform_last_request:
  "last (requests (snd (perform_http_request ev cl v u qp bp hs w))) =
   (session_used cl w, the_request ev cl v u qp bp hs)"
  by (simp add: perform_requests)

lemma perform_result:
  "fst (perform_http_request ev cl v u qp bp hs w) =
   (case session_request ev (session_used cl w) (the_request ev cl v u qp bp hs) of
      Inl e \<Rightarrow> Inl (Raised e)
    | Inr res \<Rightarrow>
        (case text_result res of
           TextOk t \<Rightarrow> Inr \<lparr>url = u, status_code = status res, raw_body = BodyText t,
                            headers = res_headers res\<rparr>
         | TextRaises ContentTypeError \<Rightarrow>
             Inr \<lparr>url = u, status_code = status res, raw_body = EmptyDict,
                  headers = res_headers res\<rparr>
         | TextRaises (JSONDecodeError m) \<Rightarrow>
             Inl (SlackApiError (''Failed to parse the response body: '' @ m) res)
         | TextRaises (OtherError m) \<Rightarrow> Inl (Raised (OtherError m))))"
proof (cases "use_running_session cl w")
  case True
  then obtain s where s: "session cl = Some s" "is_open w s"
    by (auto simp add: use_running_session_def split: option.splits)
  then show ?thesis
    by (simp add: perform_running session_used_def answer_def read_response_def Let_def
        split: sum.splits text_outcome.splits exn.splits)
next
  case False
  then have "session_used cl w = length (sessions w)"
    by (simp add: use_running_session_def session_used_def split: option.splits)
  with False show ?thesis
    by (simp add: perform_fresh Let_def answer_def read_response_def
        split: sum.splits text_outcome.splits exn.splits)
qed

lemma perform_sessions_running:
  assumes "session cl = Some s" "is_open w s"
  shows "sessions (snd (perform_http_request ev cl v u qp bp hs w)) = sessions w"
  using assms by (simp add: perform_running)

lemma perform_sessions_fresh:
  assumes "\<not> use_running_session cl w"
  shows "sessions (snd (perform_http_request ev cl v u qp bp hs w)) =
         sessions w @ [\<lparr>closed = True, total_timeout = timeout cl, session_auth = auth cl,
                         trust_env = trust_env_in_session cl\<rparr>]"
  using assms by (simp add: perform_fresh Let_def close_session_def new_session_def)

lemma log_records_answer:
  "log_records (snd (answer ev s rq u w)) =
   log_records w @
   (case session_request ev s rq of
      Inl e \<Rightarrow> []
    | Inr res \<Rightarrow>
        (case text_result res of
           TextOk t \<Rightarrow>
             [(DEBUG, ReceivedResponse \<lparr>url = u, status_code = status res,
                 raw_body = BodyText t, headers = res_headers res\<rparr>)]
         | TextRaises ContentTypeError \<Rightarrow>
             [(DEBUG, NoResponseData u),
              (DEBUG, ReceivedResponse \<lparr>url = u, status_code = status res,
                 raw_body = EmptyDict, headers = res_headers res\<rparr>)]
         | TextRaises (JSONDecodeError m) \<Rightarrow> []
         | TextRaises (OtherError m) \<Rightarrow> []))"
  by (simp add: answer_def read_response_def debug_log_response_def Let_def
      split: sum.splits text_outcome.splits exn.splits)

lemma log_records_new_session [simp]:
  "log_records (snd (new_session cl w)) = log_records w"
  by (simp add: new_session_def)

lemma perform_log_records:
  "log_records (snd (perform_http_request ev cl v u qp bp hs w)) =
   log_records (log_request ev cl u qp bp hs w) @
   (case session_request ev (session_used cl w) (the_request ev cl v u qp bp hs) of
      Inl e \<Rightarrow> []
    | Inr res \<Rightarrow>
        (case text_result res of
           TextOk t \<Rightarrow>
             [(DEBUG, ReceivedResponse \<lparr>url = u, status_code = status res,
                 raw_body = BodyText t, headers = res_headers res\<rparr>)]
         | TextRaises ContentTypeError \<Rightarrow>
             [(DEBUG, NoResponseData u),
              (DEBUG, ReceivedResponse \<lparr>url = u, status_code = status res,
                 raw_body = EmptyDict, headers = res_headers res\<rparr>)]
         | TextRaises (JSONDecodeError m) \<Rightarrow> []
         | TextRaises (OtherError m) \<Rightarrow> []))"
proof (cases "use_running_session cl w")
  case True
  then obtain s where s: "session cl = Some s" "is_open w s"
    by (auto simp add: use_running_session_def split: option.splits)
  then show ?thesis
    by (simp add: perform_running session_used_def log_records_answer)
next
  case False
  then have "session_used cl w = length (sessions w)"
    by (simp add: use_running_session_def session_used_def split: option.splits)
  with False show ?thesis
    by (simp add: perform_fresh Let_def log_records_answer)
qed

lemma api_call_last_request:
  "last (requests (snd (api_call ev cl v p qp bp hs w))) =
   (session_used cl w,
    the_request ev cl v (base_url cl @ p) qp bp
      (build_request_headers ev (token cl) (default_headers cl) hs))"
  by (simp add: api_call_def perform_last_request)

lemma drop_none_apply:
  "drop_none d k = (case d k of None \<Rightarrow> None | Some v \<Rightarrow> (case v of PyNone \<Rightarrow> None | _ \<Rightarrow> Some v))"
  by (simp add: drop_none_def)

lemma drop_none_not_null: "drop_none d k \<noteq> Some PyNone"
  by (simp add: drop_none_def split: option.splits py_value.splits)

lemma lower_Authorization: "lower ''Authorization'' = ''authorization''"
  by code_simp

lemma headers_for_logging_agree:
  assumes "dom h1 = dom h2" and "\<And>k. lower k \<noteq> ''authorization'' \<Longrightarrow> h1 k = h2 k"
  shows "headers_for_logging (h1(c \<mapsto> t)) = headers_for_logging (h2(c \<mapsto> t))"
proof
  fix k
  show "headers_for_logging (h1(c \<mapsto> t)) k = headers_for_logging (h2(c \<mapsto> t)) k"
  proof (cases "lower k = ''authorization''")
    case True
    from assms(1) have "(h1 k = None) = (h2 k = None)"
      by (metis domIff)
    with True show ?thesis
      by (auto simp add: headers_for_logging_def split: option.splits)
  next
    case False
    then have "h1 k = h2 k"
      by (rule assms(2))
    then show ?thesis
      by (simp add: headers_for_logging_def)
  qed
qed

lemma log_request_agree:
  assumes "dom h1 = dom h2" and "\<And>k. lower k \<noteq> ''authorization'' \<Longrightarrow> h1 k = h2 k"
  shows "log_request ev cl u qp bp h1 w = log_request ev cl u qp bp h2 w"
  using headers_for_logging_agree [OF assms] by (simp add: log_request_def)

lemma log_records_log_request:
  "level (logger cl) \<le> DEBUG \<Longrightarrow>
   log_records (log_request ev cl u qp bp hs w) =
   log_records w @
   [(DEBUG, SendingRequest u qp (case bp of None \<Rightarrow> None | Some b \<Rightarrow> Some (json_dumps ev b))
      (headers_for_logging (hs(''Content-Type'' \<mapsto> ''application/json;charset=utf-8''))))]"
  by (simp add: log_request_def)

lemma api_call_result:
  "fst (api_call ev cl v p qp bp hs w) =
   fst (perform_http_request ev cl v (base_url cl @ p) qp bp
          (build_request_headers ev (token cl) (default_headers cl) hs) w)"
  by (simp add: api_call_def)

section \<open>The claims\<close>

text \<open>
  C1. For every call of \<^verbatim>\<open>logs\<close>, with any combination of the six named filters and any
  additional parameters, the query parameters of the request that is issued are
  \<open>logs_query_params\<close>; at every key they hold the value of the additional parameter
  when there is one, and the non-null named filter of that name otherwise, where a value
  that is null is left out; no key is transmitted with a null value.
\<close>

theorem logs_transmits_non_null_filters_and_additional:
  "req_params (snd (last (requests (snd (logs ev cl la ol li ac at en ad hs w))))) =
     Some (logs_query_params la ol li ac at en ad)
   \<and> logs_query_params la ol li ac at en ad k =
       (case (case ad of None \<Rightarrow> None | Some a \<Rightarrow> a k) of
          None \<Rightarrow> non_null_named_filters la ol li ac at en k
        | Some v \<Rightarrow> (case v of PyNone \<Rightarrow> None | _ \<Rightarrow> Some v))
   \<and> logs_query_params la ol li ac at en ad k \<noteq> Some PyNone"
proof (intro conjI)
  show "req_params (snd (last (requests (snd (logs ev cl la ol li ac at en ad hs w))))) =
     Some (logs_query_params la ol li ac at en ad)"
    by (simp add: logs_def api_call_last_request the_request_def)
  show "logs_query_params la ol li ac at en ad k \<noteq> Some PyNone"
    by (simp add: logs_query_params_def Let_def drop_none_not_null)
  show "logs_query_params la ol li ac at en ad k =
       (case (case ad of None \<Rightarrow> None | Some a \<Rightarrow> a k) of
          None \<Rightarrow> non_null_named_filters la ol li ac at en k
        | Some v \<Rightarrow> (case v of PyNone \<Rightarrow> None | _ \<Rightarrow> Some v))"
  proof (cases ad)
    case None
    then show ?thesis
      by (simp add: logs_query_params_def Let_def drop_none_apply non_null_named_filters_def
          of_int_opt_def of_str_opt_def split: option.splits)
  next
    case (Some a)
    then show ?thesis
      by (cases "a k")
        (simp_all add: logs_query_params_def Let_def drop_none_apply non_null_named_filters_def
          map_add_def of_int_opt_def of_str_opt_def split: option.splits)
  qed
qed

text \<open>
  C10. When the additional parameters map a key to null, that key is absent from the
  query parameters of the request that \<^verbatim>\<open>logs\<close> issues, whatever the named argument of
  that name was: the merge precedes the filter.
\<close>

theorem additional_null_cancels_named_filter:
  assumes "a k = Some PyNone"
  shows "req_params (snd (last (requests (snd (logs ev cl la ol li ac at en (Some a) hs w))))) =
           Some (logs_query_params la ol li ac at en (Some a))
         \<and> logs_query_params la ol li ac at en (Some a) k = None"
  using assms
  by (simp add: logs_def api_call_last_request the_request_def logs_query_params_def Let_def
      drop_none_apply map_add_def)

text \<open>
  At \<^verbatim>\<open>latest=5\<close> the key \<^verbatim>\<open>latest\<close> is transmitted, and with the additional parameter
  \<^verbatim>\<open>{"latest": None}\<close> it is not.
\<close>

theorem additional_null_cancels_named_filter_witness:
  "[''latest'' \<mapsto> PyNone] ''latest'' = Some PyNone
   \<and> logs_query_params (Some 5) None None None None None None ''latest'' = Some (PyInt 5)
   \<and> logs_query_params (Some 5) None None None None None (Some [''latest'' \<mapsto> PyNone])
        ''latest'' = None"
proof -
  have h: "[''latest'' \<mapsto> PyNone] ''latest'' = Some PyNone"
    by simp
  have n: "logs_query_params (Some 5) None None None None None None ''latest'' = Some (PyInt 5)"
    by (simp add: logs_query_params_def Let_def drop_none_def of_int_opt_def of_str_opt_def)
  show ?thesis
    using h n
      additional_null_cancels_named_filter
        [where a = "[''latest'' \<mapsto> PyNone]" and k = "''latest''" and la = "Some 5"
          and ol = None and li = None and ac = None and at = None and en = None, OF h]
    by simp
qed

text \<open>
  C9. The query parameters of the request that \<^verbatim>\<open>schemas\<close> and \<^verbatim>\<open>actions\<close> issue are the
  caller's \<^verbatim>\<open>query_params\<close>, unchanged; an entry whose value is null is still there.
\<close>

theorem schemas_and_actions_forward_query_params:
  "req_params (snd (last (requests (snd (schemas ev cl qp hs w))))) = qp
   \<and> req_params (snd (last (requests (snd (actions ev cl qp hs w))))) = qp
   \<and> req_params (snd (last (requests (snd (schemas ev cl (Some (q(k \<mapsto> PyNone))) hs w))))) =
       Some (q(k \<mapsto> PyNone))
   \<and> req_params (snd (last (requests (snd (actions ev cl (Some (q(k \<mapsto> PyNone))) hs w))))) =
       Some (q(k \<mapsto> PyNone))"
  by (simp add: schemas_def actions_def api_call_last_request the_request_def)

text \<open>
  C2. When the client has no supplied session that is still open, the transport invoker
  creates one session, sends the request through it, and that session is closed in the
  state the invocation leaves behind, whether it returns an envelope or raises; the
  sessions that existed before are as they were.
\<close>

theorem created_session_closed_on_every_exit:
  assumes "\<not> use_running_session cl w"
  shows "sessions (snd (perform_http_request ev cl v u qp bp hs w)) =
           sessions w @ [\<lparr>closed = True, total_timeout = timeout cl, session_auth = auth cl,
                           trust_env = trust_env_in_session cl\<rparr>]
         \<and> fst (last (requests (snd (perform_http_request ev cl v u qp bp hs w)))) =
             length (sessions w)"
proof -
  from assms have "session_used cl w = length (sessions w)"
    by (simp add: use_running_session_def session_used_def split: option.splits)
  with assms show ?thesis
    by (simp add: perform_sessions_fresh perform_last_request)
qed

text \<open>
  A client without a session whose request times out: the exception passes through and the
  session created for the call is closed.
\<close>

theorem created_session_closed_on_every_exit_witness:
  "\<not> use_running_session (sample_client None) sample_world
   \<and> fst (perform_http_request (sample_env (Inl (OtherError ''timeout''))) (sample_client None)
        ''GET'' ''https://api.slack.com/audit/v1/logs'' None None Map.empty sample_world) =
       Inl (Raised (OtherError ''timeout''))
   \<and> sessions (snd (perform_http_request (sample_env (Inl (OtherError ''timeout'')))
        (sample_client None) ''GET'' ''https://api.slack.com/audit/v1/logs'' None None Map.empty
        sample_world)) =
       [\<lparr>closed = False, total_timeout = 5, session_auth = None, trust_env = False\<rparr>,
        \<lparr>closed = True, total_timeout = 30, session_auth = None, trust_env = False\<rparr>]"
proof -
  have h: "\<not> use_running_session (sample_client None) sample_world"
    by (simp add: use_running_session_def sample_client_def)
  have r: "fst (perform_http_request (sample_env (Inl (OtherError ''timeout''))) (sample_client None)
        ''GET'' ''https://api.slack.com/audit/v1/logs'' None None Map.empty sample_world) =
       Inl (Raised (OtherError ''timeout''))"
    by (simp add: perform_result sample_env_def)
  show ?thesis
    using h r
      created_session_closed_on_every_exit
        [OF h, of "sample_env (Inl (OtherError ''timeout''))" "''GET''"
          "''https://api.slack.com/audit/v1/logs''" None None Map.empty]
    by (simp add: sample_world_def sample_client_def)
qed

text \<open>
  C3. The claim has every response whose body text is not valid JSON raise
  \<^verbatim>\<open>SlackApiError\<close>. The handler of the JSON decode error guards only the read of the
  text, which decodes no JSON: for a response with status 200 whose text is \<^verbatim>\<open>not json\<close>
  the read succeeds, the handler does not run, and the call returns an envelope carrying
  that text.
\<close>

theorem non_json_text_returns_envelope:
  "fst (perform_http_request (sample_env (Inr (text_response (TextOk ''not json''))))
     (sample_client None) ''GET'' ''https://api.slack.com/audit/v1/logs'' None None Map.empty
     sample_world) =
   Inr \<lparr>url = ''https://api.slack.com/audit/v1/logs'', status_code = 200,
        raw_body = BodyText ''not json'', headers = [''Content-Type'' \<mapsto> ''text/plain'']\<rparr>"
  by (simp add: perform_result sample_env_def text_response_def)

text \<open>
  C4, as stated, fails: \<^verbatim>\<open>schemas()\<close> sends no body, and its request carries the
  \<^verbatim>\<open>Content-Type\<close> header all the same.
\<close>

theorem content_type_without_body_counterexample:
  "req_data (snd (last (requests (snd (schemas (sample_env (Inl (OtherError ''timeout'')))
      (sample_client None) None None sample_world))))) = None
   \<and> req_headers (snd (last (requests (snd (schemas (sample_env (Inl (OtherError ''timeout'')))
      (sample_client None) None None sample_world))))) ''Content-Type'' =
       Some ''application/json;charset=utf-8''"
  by (simp add: schemas_def api_call_last_request the_request_def)

text \<open>
  C4, amended. For every request, a body that is supplied is serialised to a JSON string
  and sent as the data of the request, and the header
  \<^verbatim>\<open>Content-Type: application/json;charset=utf-8\<close> is attached to the request whether or
  not a body is present.
\<close>

theorem body_serialised_content_type_always:
  "req_data (snd (last (requests (snd (perform_http_request ev cl v u qp bp hs w))))) =
     (case bp of None \<Rightarrow> None | Some b \<Rightarrow> Some (json_dumps ev b))
   \<and> req_headers (snd (last (requests (snd (perform_http_request ev cl v u qp bp hs w)))))
       ''Content-Type'' = Some ''application/json;charset=utf-8''"
  by (simp add: perform_last_request the_request_def)

text \<open>
  C5. The claim has every response whose content type prevents reading the body as text
  return an envelope with an empty raw body and no error. The handler that treats the
  body as empty guards the read of the text for \<^verbatim>\<open>ContentTypeError\<close> only, which that read
  does not raise: for a response with status 200 and content type \<^verbatim>\<open>image/png\<close> whose
  bytes do not decode, the read raises \<^verbatim>\<open>UnicodeDecodeError\<close>, no handler catches it, the
  message of the missing data is not logged, and the call raises that exception.
\<close>

theorem undecodable_body_raises:
  "fst (perform_http_request
     (sample_env (Inr \<lparr>status = 200, res_headers = [''Content-Type'' \<mapsto> ''image/png''],
                        text_result = TextRaises (OtherError ''UnicodeDecodeError'')\<rparr>))
     (sample_client None) ''GET'' ''https://api.slack.com/audit/v1/logs'' None None Map.empty
     sample_world) =
   Inl (Raised (OtherError ''UnicodeDecodeError''))
   \<and> (DEBUG, NoResponseData ''https://api.slack.com/audit/v1/logs'') \<notin>
       set (log_records (snd (perform_http_request
         (sample_env (Inr \<lparr>status = 200, res_headers = [''Content-Type'' \<mapsto> ''image/png''],
                            text_result = TextRaises (OtherError ''UnicodeDecodeError'')\<rparr>))
         (sample_client None) ''GET'' ''https://api.slack.com/audit/v1/logs'' None None Map.empty
         sample_world)))"
  by (simp add: perform_result perform_log_records log_request_def sample_env_def
      sample_world_def)

text \<open>
  C6. At debug verbosity the first message logged by a call is the request message. Its
  headers hold \<^verbatim>\<open>(redacted)\<close> at every key that equals \<^verbatim>\<open>authorization\<close> once lowered, and
  the header's own value at every other key. For two header maps with the same keys that
  differ only at such keys the request message is the same, and when the transport
  answers both requests alike, so is the whole log.
\<close>

theorem authorization_redacted_in_request_log:
  assumes "level (logger cl) \<le> DEBUG"
    and "dom h1 = dom h2"
    and "\<And>k. lower k \<noteq> ''authorization'' \<Longrightarrow> h1 k = h2 k"
  shows "take (Suc (length (log_records w)))
           (log_records (snd (perform_http_request ev cl v u qp bp h1 w))) =
         log_records w @
         [(DEBUG, SendingRequest u qp
            (case bp of None \<Rightarrow> None | Some b \<Rightarrow> Some (json_dumps ev b))
            (headers_for_logging (h1(''Content-Type'' \<mapsto> ''application/json;charset=utf-8''))))]
       \<and> headers_for_logging (h1(''Content-Type'' \<mapsto> ''application/json;charset=utf-8'')) k =
           (case (h1(''Content-Type'' \<mapsto> ''application/json;charset=utf-8'')) k of
              None \<Rightarrow> None
            | Some x \<Rightarrow> Some (if lower k = ''authorization'' then ''(redacted)'' else x))
       \<and> take (Suc (length (log_records w)))
           (log_records (snd (perform_http_request ev cl v u qp bp h1 w))) =
         take (Suc (length (log_records w)))
           (log_records (snd (perform_http_request ev cl v u qp bp h2 w)))
       \<and> (session_request ev (session_used cl w) (the_request ev cl v u qp bp h1) =
          session_request ev (session_used cl w) (the_request ev cl v u qp bp h2) \<longrightarrow>
          log_records (snd (perform_http_request ev cl v u qp bp h1 w)) =
          log_records (snd (perform_http_request ev cl v u qp bp h2 w)))"
proof -
  have a: "log_request ev cl u qp bp h1 w = log_request ev cl u qp bp h2 w"
    using assms(2,3) by (rule log_request_agree)
  have t: "take (Suc (length (log_records w)))
             (log_records (snd (perform_http_request ev cl v u qp bp hs w))) =
           log_records (log_request ev cl u qp bp hs w)" for hs
    using assms(1) by (simp add: perform_log_records log_records_log_request)
  have r: "headers_for_logging hs k =
           (case hs k of
              None \<Rightarrow> None
            | Some x \<Rightarrow> Some (if lower k = ''authorization'' then ''(redacted)'' else x))" for hs
    by (simp add: headers_for_logging_def)
  have f: "log_records (snd (perform_http_request ev cl v u qp bp h1 w)) =
           log_records (snd (perform_http_request ev cl v u qp bp h2 w))"
    if "session_request ev (session_used cl w) (the_request ev cl v u qp bp h1) =
        session_request ev (session_used cl w) (the_request ev cl v u qp bp h2)"
    using that by (simp add: perform_log_records a)
  have g: "headers_for_logging (h2(''Content-Type'' \<mapsto> ''application/json;charset=utf-8'')) =
           headers_for_logging (h1(''Content-Type'' \<mapsto> ''application/json;charset=utf-8''))"
    using headers_for_logging_agree [OF assms(2,3)] by simp
  show ?thesis
    using assms(1) f by (simp add: t a r g log_records_log_request)
qed

text \<open>
  Two calls that differ in the bearer token only log the same records.
\<close>

theorem authorization_redacted_in_request_log_witness:
  "level (logger (sample_client None)) \<le> DEBUG
   \<and> dom [''Authorization'' \<mapsto> ''Bearer xoxp-1''] = dom [''Authorization'' \<mapsto> ''Bearer xoxp-2'']
   \<and> headers_for_logging
        ([''Authorization'' \<mapsto> ''Bearer xoxp-1'']
           (''Content-Type'' \<mapsto> ''application/json;charset=utf-8'')) ''Authorization'' =
       Some ''(redacted)''
   \<and> log_records (snd (perform_http_request (sample_env (Inl (OtherError ''timeout'')))
        (sample_client None) ''GET'' ''https://api.slack.com/audit/v1/logs'' None None
        [''Authorization'' \<mapsto> ''Bearer xoxp-1''] sample_world)) =
       log_records (snd (perform_http_request (sample_env (Inl (OtherError ''timeout'')))
        (sample_client None) ''GET'' ''https://api.slack.com/audit/v1/logs'' None None
        [''Authorization'' \<mapsto> ''Bearer xoxp-2''] sample_world))"
proof -
  have h1: "level (logger (sample_client None)) \<le> DEBUG"
    by (simp add: sample_client_def DEBUG_def)
  have h2: "dom [''Authorization'' \<mapsto> ''Bearer xoxp-1''] =
            dom [''Authorization'' \<mapsto> ''Bearer xoxp-2'']"
    by simp
  have h3: "[''Authorization'' \<mapsto> ''Bearer xoxp-1''] k = [''Authorization'' \<mapsto> ''Bearer xoxp-2''] k"
    if "lower k \<noteq> ''authorization''" for k
    using that lower_Authorization by auto
  have e: "session_request (sample_env (Inl (OtherError ''timeout''))) s rq =
           session_request (sample_env (Inl (OtherError ''timeout''))) s rq'" for s rq rq'
    by (simp add: sample_env_def)
  note t = authorization_redacted_in_request_log
        [where ?h1.0 = "[''Authorization'' \<mapsto> ''Bearer xoxp-1'']"
           and ?h2.0 = "[''Authorization'' \<mapsto> ''Bearer xoxp-2'']"
           and w = sample_world and ev = "sample_env (Inl (OtherError ''timeout''))"
           and v = "''GET''" and u = "''https://api.slack.com/audit/v1/logs''"
           and qp = None and bp = None and k = "''Authorization''", OF h1 h2 h3]
  have c1: "headers_for_logging
        ([''Authorization'' \<mapsto> ''Bearer xoxp-1'']
           (''Content-Type'' \<mapsto> ''application/json;charset=utf-8'')) ''Authorization'' =
       Some ''(redacted)''"
    using t [THEN conjunct2, THEN conjunct1] by (simp add: lower_Authorization)
  have c2: "log_records (snd (perform_http_request (sample_env (Inl (OtherError ''timeout'')))
        (sample_client None) ''GET'' ''https://api.slack.com/audit/v1/logs'' None None
        [''Authorization'' \<mapsto> ''Bearer xoxp-1''] sample_world)) =
       log_records (snd (perform_http_request (sample_env (Inl (OtherError ''timeout'')))
        (sample_client None) ''GET'' ''https://api.slack.com/audit/v1/logs'' None None
        [''Authorization'' \<mapsto> ''Bearer xoxp-2''] sample_world))"
    using t [THEN conjunct2, THEN conjunct2, THEN conjunct2] e by (rule mp)
  show ?thesis
    using h1 h2 c1 c2 by (intro conjI)
qed

text \<open>
  C7. Every call of \<^verbatim>\<open>api_call\<close> with path \<open>p\<close> issues exactly one request, whose URL is
  \<^verbatim>\<open>base_url + p\<close>. When the call returns an envelope, its URL is \<^verbatim>\<open>base_url + p\<close>, and
  its status code, headers and raw body are those of the response to that request: the
  raw body is the text that was read, whatever that text is, and the empty value when
  the body could not be read.
\<close>

theorem api_call_url_and_envelope:
  "req_url (snd (last (requests (snd (api_call ev cl v p qp bp hs w))))) = base_url cl @ p
   \<and> length (requests (snd (api_call ev cl v p qp bp hs w))) = Suc (length (requests w))
   \<and> (fst (api_call ev cl v p qp bp hs w) = Inr resp \<longrightarrow>
        url resp = base_url cl @ p
        \<and> (\<exists>res. (case last (requests (snd (api_call ev cl v p qp bp hs w))) of
                     (s, rq) \<Rightarrow> session_request ev s rq) = Inr res
                  \<and> status_code resp = status res
                  \<and> headers resp = res_headers res
                  \<and> raw_body resp =
                      (case text_result res of
                         TextOk t \<Rightarrow> BodyText t
                       | TextRaises e \<Rightarrow> EmptyDict)))"
proof (intro conjI impI)
  show "req_url (snd (last (requests (snd (api_call ev cl v p qp bp hs w))))) = base_url cl @ p"
    by (simp add: api_call_last_request the_request_def)
  show "length (requests (snd (api_call ev cl v p qp bp hs w))) = Suc (length (requests w))"
    by (simp add: api_call_def perform_requests)
next
  assume ok: "fst (api_call ev cl v p qp bp hs w) = Inr resp"
  then show "url resp = base_url cl @ p"
    by (auto simp add: api_call_result perform_result
        split: sum.splits text_outcome.splits exn.splits)
  from ok show "\<exists>res. (case last (requests (snd (api_call ev cl v p qp bp hs w))) of
                     (s, rq) \<Rightarrow> session_request ev s rq) = Inr res
                  \<and> status_code resp = status res
                  \<and> headers resp = res_headers res
                  \<and> raw_body resp =
                      (case text_result res of
                         TextOk t \<Rightarrow> BodyText t
                       | TextRaises e \<Rightarrow> EmptyDict)"
    by (auto simp add: api_call_result api_call_last_request perform_result
        split: sum.splits text_outcome.splits exn.splits)
qed

text \<open>
  A call of \<^verbatim>\<open>api_call\<close> with path \<^verbatim>\<open>logs\<close> answered with status 200 and a JSON text.
\<close>

theorem api_call_url_and_envelope_witness:
  "fst (api_call (sample_env (Inr (text_response (TextOk ''{\"entries\":[]}''))))
     (sample_client (Some 0)) ''GET'' ''logs'' None None None sample_world) =
   Inr \<lparr>url = ''https://api.slack.com/audit/v1/logs'', status_code = 200,
        raw_body = BodyText ''{\"entries\":[]}'',
        headers = [''Content-Type'' \<mapsto> ''text/plain'']\<rparr>
   \<and> url \<lparr>url = ''https://api.slack.com/audit/v1/logs'', status_code = 200,
        raw_body = BodyText ''{\"entries\":[]}'',
        headers = [''Content-Type'' \<mapsto> ''text/plain'']\<rparr> =
       base_url (sample_client (Some 0)) @ ''logs''"
proof -
  have h: "fst (api_call (sample_env (Inr (text_response (TextOk ''{\"entries\":[]}''))))
     (sample_client (Some 0)) ''GET'' ''logs'' None None None sample_world) =
   Inr \<lparr>url = ''https://api.slack.com/audit/v1/logs'', status_code = 200,
        raw_body = BodyText ''{\"entries\":[]}'',
        headers = [''Content-Type'' \<mapsto> ''text/plain'']\<rparr>"
    by (simp add: api_call_result perform_result sample_env_def text_response_def
        sample_client_def)
  note t = api_call_url_and_envelope
      [where ev = "sample_env (Inr (text_response (TextOk ''{\"entries\":[]}'')))"
        and cl = "sample_client (Some 0)" and v = "''GET''" and p = "''logs''" and qp = None
        and bp = None and hs = None and w = sample_world
        and resp = "\<lparr>url = ''https://api.slack.com/audit/v1/logs'', status_code = 200,
          raw_body = BodyText ''{\"entries\":[]}'',
          headers = [''Content-Type'' \<mapsto> ''text/plain'']\<rparr>"]
  have c: "url \<lparr>url = ''https://api.slack.com/audit/v1/logs'', status_code = 200,
        raw_body = BodyText ''{\"entries\":[]}'',
        headers = [''Content-Type'' \<mapsto> ''text/plain'']\<rparr> =
       base_url (sample_client (Some 0)) @ ''logs''"
    using t [THEN conjunct2, THEN conjunct2, THEN mp, OF h] by (rule conjunct1)
  show ?thesis
    using h c by (intro conjI)
qed

text \<open>
  C8. When the client holds a supplied session that is still open, the transport invoker
  sends the request through that session, creates no other one, and leaves every
  session as it was: the supplied session is still open, whether the call returns or
  raises.
\<close>

theorem supplied_open_session_reused_and_left_open:
  assumes "session cl = Some s" and "is_open w s"
  shows "sessions (snd (perform_http_request ev cl v u qp bp hs w)) = sessions w
         \<and> is_open (snd (perform_http_request ev cl v u qp bp hs w)) s
         \<and> fst (last (requests (snd (perform_http_request ev cl v u qp bp hs w)))) = s"
proof -
  have e: "sessions (snd (perform_http_request ev cl v u qp bp hs w)) = sessions w"
    using assms by (rule perform_sessions_running)
  from assms have "session_used cl w = s"
    by (simp add: session_used_def)
  with e assms(2) show ?thesis
    by (simp add: is_open_def perform_last_request)
qed

text \<open>
  A client holding the open session 0 whose request times out: the session is still open
  afterwards.
\<close>

theorem supplied_open_session_reused_and_left_open_witness:
  "session (sample_client (Some 0)) = Some 0 \<and> is_open sample_world 0
   \<and> fst (perform_http_request (sample_env (Inl (OtherError ''timeout'')))
        (sample_client (Some 0)) ''GET'' ''https://api.slack.com/audit/v1/logs'' None None
        Map.empty sample_world) = Inl (Raised (OtherError ''timeout''))
   \<and> sessions (snd (perform_http_request (sample_env (Inl (OtherError ''timeout'')))
        (sample_client (Some 0)) ''GET'' ''https://api.slack.com/audit/v1/logs'' None None
        Map.empty sample_world)) =
       [\<lparr>closed = False, total_timeout = 5, session_auth = None, trust_env = False\<rparr>]"
proof -
  have h1: "session (sample_client (Some 0)) = Some 0"
    by (simp add: sample_client_def)
  have h2: "is_open sample_world 0"
    by (simp add: is_open_def sample_world_def)
  have r: "fst (perform_http_request (sample_env (Inl (OtherError ''timeout'')))
        (sample_client (Some 0)) ''GET'' ''https://api.slack.com/audit/v1/logs'' None None
        Map.empty sample_world) = Inl (Raised (OtherError ''timeout''))"
    by (simp add: perform_result sample_env_def)
  show ?thesis
    using h1 h2 r
      supplied_open_session_reused_and_left_open
        [OF h1 h2, of "sample_env (Inl (OtherError ''timeout''))" "''GET''"
          "''https://api.slack.com/audit/v1/logs''" None None Map.empty]
    by (simp add: sample_world_def)
qed

end
